theory Spec2Isabelle
  imports Complex_Main "HOL-Library.Word" "HOL-Library.Monad_Syntax"
begin

unbundle bit_operations_syntax

section \<open>IEEE 754 binary64 values\<close>

text \<open>
  A C \<^verbatim>\<open>double\<close> in memory is a 64-bit pattern: sign bit 63, biased exponent in bits
  62..52, fraction in bits 51..0. \<^verbatim>\<open>memcmp\<close> sees the bytes of that pattern; arithmetic
  and comparison see the value it encodes.

  Every finite binary64 value is an integer multiple of \<open>2 ^ -1074\<close> (the smallest
  subnormal). A finite value is therefore kept as that integer, \<open>Fin k\<close> standing for
  \<open>k * 2 ^ -1074\<close>; the sign of zero is not kept, since no operation modelled here
  (subtraction, addition, multiplication, \<^verbatim>\<open>fabs\<close>, ordered comparison) observes it.
  Arithmetic is exact integer arithmetic followed by rounding to nearest, ties to even,
  onto the binary64 grid, with overflow to infinity: the default rounding mode, each
  operation rounded to double (no wider intermediate results).
\<close>

type_synonym double = "64 word"

datatype fpval = NaN | Inf bool | Fin int

definition decode :: "double \<Rightarrow> fpval" where
  "decode w =
     (let s = bit w 63;
          e = unat (take_bit 11 (drop_bit 52 w));
          m = unat (take_bit 52 w)
      in if e = 2047 then (if m = 0 then Inf s else NaN)
         else let k = (if e = 0 then m else (2 ^ 52 + m) * 2 ^ (e - 1))
              in Fin (if s then - int k else int k))"

fun bitlen :: "nat \<Rightarrow> nat" where
  "bitlen n = (if n = 0 then 0 else Suc (bitlen (n div 2)))"

declare bitlen.simps [simp del]

definition rne :: "nat \<Rightarrow> nat \<Rightarrow> nat" where
  \<comment> \<open>\<open>n / 2 ^ t\<close> rounded to the nearest integer, ties to the even one\<close>
  "rne n t =
     (let d = n div 2 ^ t; r = n mod 2 ^ t
      in if 2 * r < 2 ^ t then d
         else if 2 ^ t < 2 * r then d + 1
         else if even d then d else d + 1)"

definition fp_round :: "bool \<Rightarrow> nat \<Rightarrow> nat \<Rightarrow> fpval" where
  \<comment> \<open>the binary64 value nearest to \<open>\<plusminus> n / 2 ^ s\<close> units of \<open>2 ^ -1074\<close>: 53 significant
      bits, but never finer than one unit\<close>
  "fp_round sg n s =
     (let qe = bitlen n - s - 53;
          k = rne n (s + qe) * 2 ^ qe
      in if 2 ^ 2098 \<le> k then Inf sg else Fin (if sg then - int k else int k))"

definition fp_round_int :: "int \<Rightarrow> nat \<Rightarrow> fpval" where
  "fp_round_int k s = fp_round (k < 0) (nat \<bar>k\<bar>) s"

fun fp_neg :: "fpval \<Rightarrow> fpval" where
  "fp_neg NaN = NaN"
| "fp_neg (Inf s) = Inf (\<not> s)"
| "fp_neg (Fin k) = Fin (- k)"

fun fp_add :: "fpval \<Rightarrow> fpval \<Rightarrow> fpval" where
  "fp_add NaN _ = NaN"
| "fp_add _ NaN = NaN"
| "fp_add (Inf a) (Inf b) = (if a = b then Inf a else NaN)"
| "fp_add (Inf a) (Fin _) = Inf a"
| "fp_add (Fin _) (Inf b) = Inf b"
| "fp_add (Fin a) (Fin b) = fp_round_int (a + b) 0"

definition fp_sub :: "fpval \<Rightarrow> fpval \<Rightarrow> fpval" where
  "fp_sub x y = fp_add x (fp_neg y)"

fun fp_mul :: "fpval \<Rightarrow> fpval \<Rightarrow> fpval" where
  "fp_mul NaN _ = NaN"
| "fp_mul _ NaN = NaN"
| "fp_mul (Inf a) (Inf b) = Inf (a \<noteq> b)"
| "fp_mul (Inf a) (Fin k) = (if k = 0 then NaN else Inf (a \<noteq> (k < 0)))"
| "fp_mul (Fin k) (Inf b) = (if k = 0 then NaN else Inf ((k < 0) \<noteq> b))"
| "fp_mul (Fin a) (Fin b) = fp_round_int (a * b) 1074"

fun fabs :: "fpval \<Rightarrow> fpval" where
  "fabs NaN = NaN"
| "fabs (Inf _) = Inf False"
| "fabs (Fin k) = Fin \<bar>k\<bar>"

fun fp_gt :: "fpval \<Rightarrow> fpval \<Rightarrow> bool" where
  \<comment> \<open>C's \<^verbatim>\<open>x > y\<close>: false whenever an operand is NaN\<close>
  "fp_gt NaN _ = False"
| "fp_gt _ NaN = False"
| "fp_gt (Inf a) (Inf b) = (\<not> a \<and> b)"
| "fp_gt (Inf a) (Fin _) = (\<not> a)"
| "fp_gt (Fin _) (Inf b) = b"
| "fp_gt (Fin a) (Fin b) = (b < a)"

fun fp_le :: "fpval \<Rightarrow> fpval \<Rightarrow> bool" where
  \<comment> \<open>C's \<^verbatim>\<open>x <= y\<close>: false whenever an operand is NaN\<close>
  "fp_le NaN _ = False"
| "fp_le _ NaN = False"
| "fp_le (Inf a) (Inf b) = (a \<or> \<not> b)"
| "fp_le (Inf a) (Fin _) = a"
| "fp_le (Fin _) (Inf b) = (\<not> b)"
| "fp_le (Fin a) (Fin b) = (a \<le> b)"

section \<open>The tolerant comparator (opm\_memcmp\_double.c)\<close>

definition abs_epsilon :: fpval where
  \<comment> \<open>the literal \<^verbatim>\<open>1e-8\<close>, as the binary64 nearest to it\<close>
  "abs_epsilon = decode 0x3E45798EE2308C3A"

definition rel_epsilon :: fpval where
  \<comment> \<open>the literal \<^verbatim>\<open>1e-5\<close>, as the binary64 nearest to it\<close>
  "rel_epsilon = decode 0x3EE4F8B588E368F1"

text \<open>
  The \<^verbatim>\<open>for\<close> loop of the \<^verbatim>\<open>else\<close> branch, from \<open>index\<close> on: it returns 1 at the first
  element pair that exceeds both thresholds, and 0 when it runs off the end.
\<close>

function cmp_loop :: "double list \<Rightarrow> double list \<Rightarrow> nat \<Rightarrow> nat \<Rightarrow> int" where
  "cmp_loop p1 p2 num_elements index =
     (if index < num_elements then
        (let diff = fabs (fp_sub (decode (p1 ! index)) (decode (p2 ! index)))
         in if fp_gt diff abs_epsilon then
              (let sum = fp_add (fabs (decode (p1 ! index))) (fabs (decode (p2 ! index)))
               in if fp_gt diff (fp_mul sum rel_epsilon) then 1
                  else cmp_loop p1 p2 num_elements (index + 1))
            else cmp_loop p1 p2 num_elements (index + 1))
      else 0)"
  by pat_completeness auto
termination
  by (relation "measure (\<lambda>(p1, p2, n, i). n - i)") auto

declare cmp_loop.simps [simp del]

text \<open>
  \<^verbatim>\<open>size_t\<close> is 64 bits wide and \<^verbatim>\<open>sizeof *p1\<close> is 8, so the byte count handed to
  \<^verbatim>\<open>memcmp\<close> is \<open>num_elements * 8\<close> modulo \<open>2 ^ 64\<close>, always a whole number of elements.
  Two byte ranges are equal exactly when the 64-bit patterns in them are. The arrays
  are the lists \<open>p1\<close> and \<open>p2\<close>; reading past the end of either is undefined behaviour,
  which the model reports as \<open>None\<close>.
\<close>

definition memcmp_doubles :: "double list \<Rightarrow> double list \<Rightarrow> 64 word \<Rightarrow> bool" where
  \<comment> \<open>\<^verbatim>\<open>memcmp(p1, p2, nbytes) == 0\<close>\<close>
  "memcmp_doubles p1 p2 nbytes = (take (unat nbytes div 8) p1 = take (unat nbytes div 8) p2)"

definition opm_memcmp_double :: "double list \<Rightarrow> double list \<Rightarrow> 64 word \<Rightarrow> int option" where
  "opm_memcmp_double p1 p2 num_elements =
     (if length p1 < unat num_elements \<or> length p2 < unat num_elements then None
      else if memcmp_doubles p1 p2 (num_elements * 8) then Some 0
      else Some (cmp_loop p1 p2 (unat num_elements) 0))"

text \<open>
  The comparison the specification words: an element pair is within tolerance when
  \<open>|a - b| \<le> 1e-8\<close> or \<open>|a - b| \<le> 1e-5 * (|a| + |b|)\<close>, every operation being the
  binary64 one.
\<close>

definition within_tolerance :: "double \<Rightarrow> double \<Rightarrow> bool" where
  "within_tolerance a b =
     (let d = fabs (fp_sub (decode a) (decode b))
      in fp_le d abs_epsilon \<or>
         fp_le d (fp_mul rel_epsilon (fp_add (fabs (decode a)) (fabs (decode b)))))"

text \<open>The two tests of the loop body that together make it return 1.\<close>

definition exceeds_both :: "double \<Rightarrow> double \<Rightarrow> bool" where
  "exceeds_both a b =
     (let diff = fabs (fp_sub (decode a) (decode b))
      in fp_gt diff abs_epsilon \<and>
         fp_gt diff (fp_mul (fp_add (fabs (decode a)) (fabs (decode b))) rel_epsilon))"

section \<open>The live-oil evaluator's state (PvtLiveOil.hpp)\<close>

text \<open>
  A C \<^verbatim>\<open>int\<close> is a 32-bit word read as a signed number. An array handed over as a
  pointer is a list, or \<open>None\<close> for the null pointer; an index outside the list is
  undefined behaviour and reported as \<open>None\<close>.
\<close>

type_synonym cint = "32 word"

definition rd :: "'a list \<Rightarrow> nat \<Rightarrow> 'a option" where
  "rd xs i = (if i < length xs then Some (xs ! i) else None)"

definition rd_int :: "'a list \<Rightarrow> cint \<Rightarrow> 'a option" where
  "rd_int xs i = (if 0 \<le> sint i then rd xs (nat (sint i)) else None)"

text \<open>
  Modelled from the spec: \<^verbatim>\<open>OilvisctTable\<close>, a type of the deck parser that the header
  names and does not declare. The specification reads a temperature-dependent factor
  from it: a temperature column and a factor column.
\<close>

record OilvisctTable =
  visct_temperature :: "real list"
  visct_factor :: "real list"

text \<open>
  Modelled from the spec: \<^verbatim>\<open>DeckKeyword\<close>, likewise the parser's; the keyword attached
  with the tables carries the reference pressure, one for each region.
\<close>

record DeckKeyword =
  reference_pressure :: "real list"

text \<open>
  The four data members of the class, named as in the header less the trailing
  underscore. A table is a vector of columns. The tables hold doubles; the evaluation
  below reads them as the real numbers they stand for, so rounding is not part of that
  model. \<open>oilvisctTables\<close> is a pointer to the caller's vector of tables, kept here as the
  vector it points to, and \<open>viscrefKeyword\<close> a shared pointer; \<open>None\<close> is the null pointer.
\<close>

record PvtLiveOil =
  saturated_oil_table :: "real list list list"
  undersat_oil_tables :: "real list list list list"
  oilvisctTables :: "OilvisctTable list option"
  viscrefKeyword :: "DeckKeyword option"

text \<open>The inline setter: two assignments.\<close>

definition setOilvisctTables ::
  "PvtLiveOil \<Rightarrow> OilvisctTable list \<Rightarrow> DeckKeyword option \<Rightarrow> PvtLiveOil" where
  "setOilvisctTables this tables keyword =
     this\<lparr>oilvisctTables := Some tables, viscrefKeyword := keyword\<rparr>"

text \<open>
  The inline region selector \<^verbatim>\<open>getTableIndex_\<close>: 0 for the null pointer, else the array
  element at \<open>cellIdx\<close>.
\<close>

definition getTableIndex :: "cint list option \<Rightarrow> cint \<Rightarrow> cint option" where
  "getTableIndex pvtTableIdx cellIdx =
     (case pvtTableIdx of
        None \<Rightarrow> Some 0
      | Some arr \<Rightarrow> rd_int arr cellIdx)"

section \<open>The evaluation (PvtLiveOil.cpp), from the specification\<close>

text \<open>
  The header declares the operations; their bodies are in PvtLiveOil.cpp, which is not
  part of the sources at hand. The definitions of this section are therefore written
  from the specification, over the real numbers. An evaluation returns \<open>None\<close> where the
  specification leaves the result undefined: a read outside a table or an array, or a
  division by zero.
\<close>

definition safe_div :: "real \<Rightarrow> real \<Rightarrow> real option" where
  "safe_div a b = (if b = 0 then None else Some (a / b))"

text \<open>
  Modelled from the spec: the bracket search of the table lookups, whose code is
  missing (4.2, 4.3). It returns the index \<open>i\<close> of the segment from breakpoint \<open>i\<close> to
  breakpoint \<open>i + 1\<close>: the first segment for an argument at or below the first
  breakpoint, the last one above the last breakpoint, and at a breakpoint the segment
  that ends there.
\<close>

fun tableIndex :: "real list \<Rightarrow> real \<Rightarrow> nat" where
  "tableIndex (x0 # x1 # x2 # xs) x =
     (if x \<le> x1 then 0 else Suc (tableIndex (x1 # x2 # xs) x))"
| "tableIndex _ x = 0"

text \<open>
  Modelled from the spec: the bracket of a table lookup, whose code is missing (4.2):
  the left end \<open>(x0, y0)\<close> of the bracketing segment of column \<open>ys\<close> over column \<open>xs\<close>, and
  the segment's slope. A table needs two rows and columns of one length.
\<close>

definition segment :: "real list \<Rightarrow> real list \<Rightarrow> real \<Rightarrow> (real \<times> real \<times> real) option" where
  "segment xs ys x =
     (if length xs < 2 \<or> length ys \<noteq> length xs then None
      else let i = tableIndex xs x in
        do {
          x0 \<leftarrow> rd xs i;
          x1 \<leftarrow> rd xs (i + 1);
          y0 \<leftarrow> rd ys i;
          y1 \<leftarrow> rd ys (i + 1);
          s \<leftarrow> safe_div (y1 - y0) (x1 - x0);
          Some (x0, y0, s)
        })"

text \<open>
  Modelled from the spec: the missing linear interpolation within the bracket,
  continued with the boundary segment's slope outside the table (4.2).
\<close>

definition linearInterpolation :: "real list \<Rightarrow> real list \<Rightarrow> real \<Rightarrow> real option" where
  "linearInterpolation xs ys x =
     map_option (\<lambda>(x0, y0, s). y0 + (x - x0) * s) (segment xs ys x)"

text \<open>
  Modelled from the spec: the missing derivative of the interpolation, the slope of the
  bracketing segment (4.2).
\<close>

definition linearInterpolationDerivative :: "real list \<Rightarrow> real list \<Rightarrow> real \<Rightarrow> real option" where
  "linearInterpolationDerivative xs ys x =
     map_option (\<lambda>(x0, y0, s). s) (segment xs ys x)"

text \<open>
  Modelled from the spec: the saturated-state evaluator behind \<^verbatim>\<open>rsSat\<close> and \<^verbatim>\<open>rvSat\<close>,
  whose bodies are missing (4.2): the saturated ratio at a pressure and its pressure
  derivative. In a saturated table column 0 is the pressure; columns 1 and 2 are \<open>1/B\<close>
  and the viscosity, as the header's comment \<^verbatim>\<open>item: 1=>1/B 2=>mu\<close> numbers them; the
  ratio at saturation is column 3.
\<close>

definition sat_ratio :: "PvtLiveOil \<Rightarrow> cint \<Rightarrow> real \<Rightarrow> (real \<times> real) option" where
  "sat_ratio this pvtTableIdx press =
     do {
       tab \<leftarrow> rd_int (saturated_oil_table this) pvtTableIdx;
       xs \<leftarrow> rd tab 0;
       rs \<leftarrow> rd tab 3;
       v \<leftarrow> linearInterpolation xs rs press;
       d \<leftarrow> linearInterpolationDerivative xs rs press;
       Some (v, d)
     }"

text \<open>
  Modelled from the spec: the saturated branch of the missing \<^verbatim>\<open>miscible_oil\<close> (4.3),
  the property column \<open>item\<close> of the saturated table at the pressure; \<open>deriv = 1\<close> asks for
  the pressure derivative, \<open>deriv = 2\<close> for the derivative with respect to the ratio,
  which is zero for a saturated point.
\<close>

definition saturated_eval :: "real list list \<Rightarrow> nat \<Rightarrow> int \<Rightarrow> real \<Rightarrow> real option" where
  "saturated_eval tab item deriv press =
     do {
       xs \<leftarrow> rd tab 0;
       ys \<leftarrow> rd tab item;
       if deriv = 0 then linearInterpolation xs ys press
       else if deriv = 1 then linearInterpolationDerivative xs ys press
       else if deriv = 2 then Some 0
       else None
     }"

text \<open>
  Modelled from the spec: the bracket of the undersaturated branch of the missing
  \<^verbatim>\<open>miscible_oil\<close> (4.3). The ratio is located among the saturated table's ratio
  breakpoints; the result holds the two breakpoints \<open>r0\<close>, \<open>r1\<close> of the bracket and the
  pressure and property columns of the two sub-tables that belong to them.
\<close>

definition undersat_bracket ::
  "real list list \<Rightarrow> real list list list \<Rightarrow> nat \<Rightarrow> real \<Rightarrow>
     (real \<times> real \<times> real list \<times> real list \<times> real list \<times> real list) option" where
  "undersat_bracket tab utabs item r =
     do {
       rs \<leftarrow> rd tab 3;
       if length rs < 2 then None
       else let is = tableIndex rs r in
         do {
           r0 \<leftarrow> rd rs is;
           r1 \<leftarrow> rd rs (is + 1);
           u1 \<leftarrow> rd utabs is;
           u2 \<leftarrow> rd utabs (is + 1);
           x1 \<leftarrow> rd u1 0;
           y1 \<leftarrow> rd u1 item;
           x2 \<leftarrow> rd u2 0;
           y2 \<leftarrow> rd u2 item;
           Some (r0, r1, x1, y1, x2, y2)
         }
     }"

text \<open>
  Modelled from the spec: the undersaturated branch of the missing \<^verbatim>\<open>miscible_oil\<close> (4.3).
  The two sub-tables of the bracket are interpolated by pressure and blended by the
  ratio's fractional position \<open>w\<close>. The derivative with respect to the ratio is the
  difference of the two sub-table values divided by the breakpoint spacing.
\<close>

definition undersat_eval ::
  "real list list \<Rightarrow> real list list list \<Rightarrow> nat \<Rightarrow> int \<Rightarrow> real \<Rightarrow> real \<Rightarrow> real option" where
  "undersat_eval tab utabs item deriv press r =
     do {
       (r0, r1, x1, y1, x2, y2) \<leftarrow> undersat_bracket tab utabs item r;
       if deriv = 0 then
         do {
           w \<leftarrow> safe_div (r - r0) (r1 - r0);
           val1 \<leftarrow> linearInterpolation x1 y1 press;
           val2 \<leftarrow> linearInterpolation x2 y2 press;
           Some (val1 + w * (val2 - val1))
         }
       else if deriv = 1 then
         do {
           w \<leftarrow> safe_div (r - r0) (r1 - r0);
           val1 \<leftarrow> linearInterpolationDerivative x1 y1 press;
           val2 \<leftarrow> linearInterpolationDerivative x2 y2 press;
           Some (val1 + w * (val2 - val1))
         }
       else if deriv = 2 then
         do {
           val1 \<leftarrow> linearInterpolation x1 y1 press;
           val2 \<leftarrow> linearInterpolation x2 y2 press;
           safe_div (val2 - val1) (r1 - r0)
         }
       else None
     }"

text \<open>
  Modelled from the spec: the evaluation strategy the three forms of the missing
  \<^verbatim>\<open>miscible_oil\<close> share (4.3), once the state is known to be saturated or not. \<open>item\<close>
  is 1 for \<open>1/B\<close> and 2 for the viscosity.
\<close>

definition miscible_oil_branch ::
  "PvtLiveOil \<Rightarrow> cint \<Rightarrow> nat \<Rightarrow> int \<Rightarrow> real \<Rightarrow> real \<Rightarrow> bool \<Rightarrow> real option" where
  "miscible_oil_branch this pvtTableIdx item deriv press r saturated =
     (if item \<noteq> 1 \<and> item \<noteq> 2 then None
      else
        do {
          tab \<leftarrow> rd_int (saturated_oil_table this) pvtTableIdx;
          if saturated then saturated_eval tab item deriv press
          else
            do {
              utabs \<leftarrow> rd_int (undersat_oil_tables this) pvtTableIdx;
              undersat_eval tab utabs item deriv press r
            }
        })"

text \<open>
  Modelled from the spec: the missing body of \<^verbatim>\<open>miscible_oil\<close> by explicit ratio (4.3).
  The state is saturated when \<open>r \<ge> rsSat(p)\<close>.
\<close>

definition miscible_oil_r ::
  "PvtLiveOil \<Rightarrow> real \<Rightarrow> real \<Rightarrow> cint \<Rightarrow> nat \<Rightarrow> int \<Rightarrow> real option" where
  "miscible_oil_r this press r pvtTableIdx item deriv =
     do {
       (Rval, dR) \<leftarrow> sat_ratio this pvtTableIdx press;
       miscible_oil_branch this pvtTableIdx item deriv press r (Rval \<le> r)
     }"

text \<open>
  Modelled from the spec: \<^verbatim>\<open>PhasePresence\<close>, which the header names and does not declare:
  the caller's indicator of which phases are present (6).
\<close>

record PhasePresence =
  free_water :: bool
  free_oil :: bool
  free_gas :: bool

text \<open>
  Modelled from the spec: the missing body of \<^verbatim>\<open>miscible_oil\<close> by ratio with phase
  condition (4.3). The caller's flag forces the branch: free gas present means
  saturated.
\<close>

definition miscible_oil_cond ::
  "PvtLiveOil \<Rightarrow> real \<Rightarrow> real \<Rightarrow> PhasePresence \<Rightarrow> cint \<Rightarrow> nat \<Rightarrow> int \<Rightarrow> real option" where
  "miscible_oil_cond this press r cond pvtTableIdx item deriv =
     miscible_oil_branch this pvtTableIdx item deriv press r (free_gas cond)"

text \<open>
  Modelled from the spec: the layout of a surface-volume block, which belongs to the
  missing base class: the number of phases and the positions of oil and gas in a block
  are parameters, and so is the bound under which an oil volume counts as near zero,
  for which the specification gives no value.
\<close>

record SurfvolLayout =
  num_phases :: nat
  oil_pos :: nat
  gas_pos :: nat
  oil_near_zero :: real

text \<open>
  Modelled from the spec: the ratio derived from a surface-volume block in the missing
  \<^verbatim>\<open>miscible_oil\<close> by surface volume (4.3, 7): \<open>surfvol[gas] / surfvol[oil]\<close>, or 0 when the
  oil volume is near zero.
\<close>

definition surfvol_ratio :: "SurfvolLayout \<Rightarrow> real list \<Rightarrow> real option" where
  "surfvol_ratio lay surfvol =
     do {
       oil \<leftarrow> rd surfvol (oil_pos lay);
       gas \<leftarrow> rd surfvol (gas_pos lay);
       if \<bar>oil\<bar> \<le> oil_near_zero lay then Some 0 else safe_div gas oil
     }"

text \<open>
  Modelled from the spec: the missing body of \<^verbatim>\<open>miscible_oil\<close> by surface volume (4.3):
  the evaluation by ratio at the derived ratio, \<open>deriv\<close> asking for the pressure
  derivative.
\<close>

definition miscible_oil_z ::
  "SurfvolLayout \<Rightarrow> PvtLiveOil \<Rightarrow> real \<Rightarrow> real list \<Rightarrow> cint \<Rightarrow> nat \<Rightarrow> bool \<Rightarrow> real option" where
  "miscible_oil_z lay this press surfvol pvtTableIdx item deriv =
     do {
       r \<leftarrow> surfvol_ratio lay surfvol;
       miscible_oil_r this press r pvtTableIdx item (if deriv then 1 else 0)
     }"

text \<open>
  Modelled from the spec: the temperature correction that the missing bodies of the
  viscosity operations apply in addition to the evaluation (4.4, 2). The header's doc
  comment on \<^verbatim>\<open>mu\<close> classifies the state by \<open>r \<ge> rsSat(p)\<close> at the cell's pressure, and 4.3
  evaluates there, so the correction acts on the output \<open>v\<close> evaluated at the cell's
  pressure; \<open>mu_at\<close> is the operation's viscosity as a function of the pressure. With no
  table attached the temperature is not looked at and \<open>v\<close> is returned as it is. With a
  table attached, the viscosity computed at the reference pressure is scaled by the
  factor read from the region's table at the cell's temperature, and \<open>v\<close> is adjusted
  relative to the reference pressure: multiplied by the ratio of the scaled to the
  unscaled reference viscosity.
\<close>

definition visct_correct ::
  "PvtLiveOil \<Rightarrow> cint \<Rightarrow> real list \<Rightarrow> nat \<Rightarrow> (real \<Rightarrow> real option) \<Rightarrow> real option \<Rightarrow>
     real option" where
  "visct_correct this region T i mu_at v =
     (case oilvisctTables this of
        None \<Rightarrow> v
      | Some tabs \<Rightarrow>
          do {
            tab \<leftarrow> rd_int tabs region;
            kw \<leftarrow> viscrefKeyword this;
            pref \<leftarrow> rd_int (reference_pressure kw) region;
            Ti \<leftarrow> rd T i;
            fac \<leftarrow> linearInterpolation (visct_temperature tab) (visct_factor tab) Ti;
            mu_ref \<leftarrow> mu_at pref;
            alpha \<leftarrow> safe_div (mu_ref * fac) mu_ref;
            x \<leftarrow> v;
            Some (x * alpha)
          })"

text \<open>
  Modelled from the spec: the loop over the cells in the missing bodies of the
  vectorised operations (4.4). Cell \<open>i\<close> of each output is computed from the inputs at
  index \<open>i\<close> alone, for \<open>i\<close> from 0 below \<open>n\<close>; the outputs are returned as lists of length
  \<open>n\<close>, and \<open>block\<close> is cell \<open>i\<close>'s part of a surface-volume array.
\<close>

definition cells :: "cint \<Rightarrow> (nat \<Rightarrow> 'a option) \<Rightarrow> 'a list option" where
  "cells n f = those (map f [0..<nat (sint n)])"

definition unzip3 :: "('a \<times> 'b \<times> 'c) list \<Rightarrow> 'a list \<times> 'b list \<times> 'c list" where
  "unzip3 xs = (map fst xs, map (fst \<circ> snd) xs, map (snd \<circ> snd) xs)"

definition block :: "real list \<Rightarrow> nat \<Rightarrow> nat \<Rightarrow> real list option" where
  "block z np i = (if np * (i + 1) \<le> length z then Some (take np (drop (np * i) z)) else None)"

text \<open>
  Modelled from the spec: the missing body of \<^verbatim>\<open>rsSat\<close> (4.2, 4.4): saturated ratio and
  pressure derivative, cell by cell.
\<close>

definition rsSat ::
  "PvtLiveOil \<Rightarrow> cint \<Rightarrow> cint list option \<Rightarrow> real list \<Rightarrow> (real list \<times> real list) option" where
  "rsSat this n pvtTableIdx p =
     map_option (\<lambda>out. (map fst out, map snd out))
       (cells n (\<lambda>i. do {
          region \<leftarrow> getTableIndex pvtTableIdx (of_nat i);
          pi \<leftarrow> rd p i;
          sat_ratio this region pi
        }))"

text \<open>
  Modelled from the spec: the missing body of \<^verbatim>\<open>rvSat\<close>, which the specification gives
  the same evaluator as \<^verbatim>\<open>rsSat\<close> (4.2).
\<close>

definition rvSat ::
  "PvtLiveOil \<Rightarrow> cint \<Rightarrow> cint list option \<Rightarrow> real list \<Rightarrow> (real list \<times> real list) option" where
  "rvSat this n pvtTableIdx p =
     map_option (\<lambda>out. (map fst out, map snd out))
       (cells n (\<lambda>i. do {
          region \<leftarrow> getTableIndex pvtTableIdx (of_nat i);
          pi \<leftarrow> rd p i;
          sat_ratio this region pi
        }))"

text \<open>
  The three outputs of a cell of a ratio-based operation: the value (\<open>deriv = 0\<close>), the
  pressure derivative (\<open>deriv = 1\<close>) and the ratio derivative (\<open>deriv = 2\<close>).
\<close>

definition eval3 :: "(int \<Rightarrow> real option) \<Rightarrow> (real \<times> real \<times> real) option" where
  "eval3 f = do { v \<leftarrow> f 0; dp \<leftarrow> f 1; dr \<leftarrow> f 2; Some (v, dp, dr) }"

text \<open>
  Modelled from the spec: the missing body of \<^verbatim>\<open>b\<close> as a function of \<open>p\<close>, \<open>T\<close> and \<open>r\<close>
  (4.4, 6): \<open>1/B\<close> is item 1; the temperature is not looked at.
\<close>

definition b_r ::
  "PvtLiveOil \<Rightarrow> cint \<Rightarrow> cint list option \<Rightarrow> real list \<Rightarrow> real list \<Rightarrow> real list \<Rightarrow>
     (real list \<times> real list \<times> real list) option" where
  "b_r this n pvtTableIdx p T r =
     map_option unzip3
       (cells n (\<lambda>i. do {
          region \<leftarrow> getTableIndex pvtTableIdx (of_nat i);
          pi \<leftarrow> rd p i;
          ri \<leftarrow> rd r i;
          eval3 (\<lambda>deriv. miscible_oil_r this pi ri region 1 deriv)
        }))"

text \<open>
  Modelled from the spec: the missing body of \<^verbatim>\<open>mu\<close> as a function of \<open>p\<close>, \<open>T\<close> and \<open>z\<close>
  (4.4, 6): the viscosity is item 2.
\<close>

definition mu_z ::
  "SurfvolLayout \<Rightarrow> PvtLiveOil \<Rightarrow> cint \<Rightarrow> cint list option \<Rightarrow> real list \<Rightarrow> real list \<Rightarrow>
     real list \<Rightarrow> real list option" where
  "mu_z lay this n pvtTableIdx p T z =
     cells n (\<lambda>i. do {
       region \<leftarrow> getTableIndex pvtTableIdx (of_nat i);
       pi \<leftarrow> rd p i;
       surfvol \<leftarrow> block z (num_phases lay) i;
       visct_correct this region T i
         (\<lambda>q. miscible_oil_z lay this q surfvol region 2 False)
         (miscible_oil_z lay this pi surfvol region 2 False)
     })"

text \<open>
  Modelled from the spec: the missing body of \<^verbatim>\<open>mu\<close> as a function of \<open>p\<close>, \<open>T\<close> and \<open>r\<close>
  (4.4, 6), saturation inferred from \<open>rsSat\<close>.
\<close>

definition mu_r ::
  "PvtLiveOil \<Rightarrow> cint \<Rightarrow> cint list option \<Rightarrow> real list \<Rightarrow> real list \<Rightarrow> real list \<Rightarrow>
     (real list \<times> real list \<times> real list) option" where
  "mu_r this n pvtTableIdx p T r =
     map_option unzip3
       (cells n (\<lambda>i. do {
          region \<leftarrow> getTableIndex pvtTableIdx (of_nat i);
          pi \<leftarrow> rd p i;
          ri \<leftarrow> rd r i;
          eval3 (\<lambda>deriv. visct_correct this region T i
                   (\<lambda>q. miscible_oil_r this q ri region 2 0)
                   (miscible_oil_r this pi ri region 2 deriv))
        }))"

text \<open>
  Modelled from the spec: the missing body of \<^verbatim>\<open>mu\<close> as a function of \<open>p\<close>, \<open>T\<close>, \<open>r\<close> and the
  phase condition (4.4, 6), saturation forced by the condition.
\<close>

definition mu_cond ::
  "PvtLiveOil \<Rightarrow> cint \<Rightarrow> cint list option \<Rightarrow> real list \<Rightarrow> real list \<Rightarrow> real list \<Rightarrow>
     PhasePresence list \<Rightarrow> (real list \<times> real list \<times> real list) option" where
  "mu_cond this n pvtTableIdx p T r cond =
     map_option unzip3
       (cells n (\<lambda>i. do {
          region \<leftarrow> getTableIndex pvtTableIdx (of_nat i);
          pi \<leftarrow> rd p i;
          ri \<leftarrow> rd r i;
          ci \<leftarrow> rd cond i;
          eval3 (\<lambda>deriv. visct_correct this region T i
                   (\<lambda>q. miscible_oil_cond this q ri ci region 2 0)
                   (miscible_oil_cond this pi ri ci region 2 deriv))
        }))"

text \<open>
  The value \<open>b(p, T, r)\<close> of one cell of region \<open>region\<close>: the first output of \<open>b_r\<close> called
  on that single cell.
\<close>

definition b_value :: "PvtLiveOil \<Rightarrow> cint \<Rightarrow> real \<Rightarrow> real \<Rightarrow> real \<Rightarrow> real option" where
  "b_value this region p T r =
     map_option (\<lambda>(output_b, output_dbdp, output_dbdr). output_b ! 0)
       (b_r this 1 (Some [region]) [p] [T] [r])"

text \<open>
  The tables of the specification's scenario (8): one region whose saturated table has
  the rows \<open>(p=100, r=50, b=0.9, mu=1.2)\<close> and \<open>(p=200, r=80, b=0.95, mu=1.0)\<close>. The
  scenario names no sub-tables; the two here start at the saturated rows and run to
  \<open>p = 300\<close> with \<open>(b=1.0, mu=1.3)\<close> and \<open>(b=0.96, mu=1.1)\<close>. No temperature table.
\<close>

definition scenario :: PvtLiveOil where
  "scenario =
     \<lparr>saturated_oil_table = [[[100, 200], [9/10, 95/100], [12/10, 1], [50, 80]]],
      undersat_oil_tables =
        [[[[100, 300], [9/10, 1], [12/10, 13/10]],
          [[200, 300], [95/100, 96/100], [1, 11/10]]]],
      oilvisctTables = None,
      viscrefKeyword = None\<rparr>"


section \<open>Evaluating binary64 arithmetic\<close>

text \<open>
  Equations that let the simplifier compute \<open>bitlen\<close> and \<open>rne\<close> on numerals of a few
  thousand bits by shifting instead of dividing.
\<close>

lemma bitlen_shift: "2 ^ k \<le> n \<Longrightarrow> bitlen n = k + bitlen (n div 2 ^ k)"
proof (induction k arbitrary: n)
  case 0
  then show ?case by simp
next
  case (Suc k)
  from Suc.prems have n: "n \<noteq> 0" by (cases "n = 0") simp_all
  from Suc.prems have h: "2 ^ k \<le> n div 2" by simp
  have "bitlen n = Suc (bitlen (n div 2))" using n by (subst bitlen.simps) simp
  also have "bitlen (n div 2) = k + bitlen (n div 2 div 2 ^ k)" by (rule Suc.IH [OF h])
  also have "n div 2 div 2 ^ k = n div 2 ^ Suc k" by (simp add: div_mult2_eq)
  finally show ?case by simp
qed

lemma bitlen_eval:
  "bitlen n =
     (if 2 ^ 1024 \<le> n then 1024 + bitlen (drop_bit 1024 n)
      else if 2 ^ 256 \<le> n then 256 + bitlen (drop_bit 256 n)
      else if 2 ^ 64 \<le> n then 64 + bitlen (drop_bit 64 n)
      else if 2 ^ 8 \<le> n then 8 + bitlen (drop_bit 8 n)
      else if n = 0 then 0 else 1 + bitlen (drop_bit 1 n))"
  using bitlen_shift [of 1024 n] bitlen_shift [of 256 n] bitlen_shift [of 64 n]
    bitlen_shift [of 8 n] bitlen.simps [of n]
  by (simp del: power_numeral add: drop_bit_eq_div)

lemma rne_eval:
  "rne n t =
     (let d = drop_bit t n; r = n - push_bit t d
      in if 2 * r < 2 ^ t then d
         else if 2 ^ t < 2 * r then d + 1
         else if even d then d else d + 1)"
proof -
  have "n mod 2 ^ t = n - push_bit t (drop_bit t n)"
    by (simp add: push_bit_eq_mult drop_bit_eq_div minus_div_mult_eq_mod [symmetric])
  then show ?thesis by (simp add: rne_def drop_bit_eq_div)
qed

lemmas fp_eval = decode_def fp_sub_def fp_round_int_def fp_round_def rne_eval bitlen_eval
  abs_epsilon_def rel_epsilon_def

section \<open>The literals\<close>

text \<open>
  The bit patterns used for the decimal literals are the binary64 values nearest to
  them. A pattern with significand \<open>m\<close> (hidden bit included) and biased exponent \<open>e\<close>
  stands for \<open>m * 2 ^ (e - 1075)\<close>, that is \<open>m * 2 ^ (e - 1)\<close> units; it is nearest to the
  decimal \<open>a / 10 ^ k\<close> when twice the distance, scaled by \<open>10 ^ k * 2 ^ (1075 - e)\<close>, is at
  most \<open>10 ^ k\<close>.
\<close>

lemma abs_epsilon_nearest:
  "abs_epsilon = Fin (0x15798EE2308C3A * 2 ^ 995)"
  "\<bar>0x15798EE2308C3A * 10 ^ 8 - 2 ^ 79\<bar> * 2 \<le> (10 :: int) ^ 8"
  by (simp_all add: abs_epsilon_def decode_def)

lemma rel_epsilon_nearest:
  "rel_epsilon = Fin (0x14F8B588E368F1 * 2 ^ 1005)"
  "\<bar>0x14F8B588E368F1 * 10 ^ 5 - 2 ^ 69\<bar> * 2 \<le> (10 :: int) ^ 5"
  by (simp_all add: rel_epsilon_def decode_def)

lemma example_literals:
  "decode 0x3FF0000000000000 = Fin (2 ^ 1074)"
  "decode 0x4000000000000000 = Fin (2 * 2 ^ 1074)"
  "decode 0x408F400000000000 = Fin (1000 * 2 ^ 1074)"
  "decode 0x3FF00000055E63B9 = Fin (0x100000055E63B9 * 2 ^ 1022)"
  "\<bar>0x100000055E63B9 * 10 ^ 8 - 100000002 * 2 ^ 52\<bar> * 2 \<le> (10 :: int) ^ 8"
  "decode 0x408F4028F5C28F5C = Fin (0x1F4028F5C28F5C * 2 ^ 1031)"
  "\<bar>0x1F4028F5C28F5C * 100 - 100002 * 2 ^ 43\<bar> * 2 \<le> (100 :: int)"
  "decode 0x3FF199999999999A = Fin (0x1199999999999A * 2 ^ 1022)"
  "\<bar>0x1199999999999A * 10 - 11 * 2 ^ 52\<bar> * 2 \<le> (10 :: int)"
  by (simp_all add: decode_def)

section \<open>NaN and the ordered comparisons\<close>

lemma fp_round_not_NaN: "fp_round sg n s \<noteq> NaN"
  by (simp add: fp_round_def Let_def)

lemma fp_round_int_not_NaN: "fp_round_int k s \<noteq> NaN"
  by (simp add: fp_round_int_def fp_round_not_NaN)

lemma fp_sub_NaN_left: "fp_sub NaN y = NaN"
  by (simp add: fp_sub_def)

lemma fp_sub_NaN_right: "fp_sub x NaN = NaN"
  by (cases x) (simp_all add: fp_sub_def)

lemma fabs_NaN_iff: "fabs x = NaN \<longleftrightarrow> x = NaN"
  by (cases x) simp_all

lemma fp_gt_NaN_right: "\<not> fp_gt x NaN"
  by (cases x) simp_all

lemma fp_le_NaN_right: "\<not> fp_le x NaN"
  by (cases x) simp_all

lemma fp_add_not_NaN: "x \<noteq> NaN \<Longrightarrow> y \<noteq> NaN \<Longrightarrow> fp_add (fabs x) (fabs y) \<noteq> NaN"
  by (cases x; cases y) (simp_all add: fp_round_int_not_NaN)

lemma rel_epsilon_pos: "\<exists>k. rel_epsilon = Fin k \<and> 0 < k"
  by (simp add: rel_epsilon_def decode_def)

lemma fp_mul_rel_epsilon_not_NaN:
  assumes "x \<noteq> NaN"
  shows "fp_mul x rel_epsilon \<noteq> NaN"
proof -
  from rel_epsilon_pos obtain k where k: "rel_epsilon = Fin k" "0 < k" by blast
  show ?thesis using assms k(2) unfolding k(1)
    by (cases x) (simp_all add: fp_round_int_not_NaN)
qed

lemma fp_mul_commute: "fp_mul x y = fp_mul y x"
  by (cases x; cases y) (auto simp: mult.commute)

lemma not_fp_gt_iff: "x \<noteq> NaN \<Longrightarrow> y \<noteq> NaN \<Longrightarrow> \<not> fp_gt x y \<longleftrightarrow> fp_le x y"
  by (cases x; cases y) auto

lemma exceeds_both_iff:
  assumes "fp_sub (decode a) (decode b) \<noteq> NaN"
  shows "exceeds_both a b \<longleftrightarrow> \<not> within_tolerance a b"
proof -
  from assms have a: "decode a \<noteq> NaN" and b: "decode b \<noteq> NaN"
    using fp_sub_NaN_left fp_sub_NaN_right by metis+
  have d: "fabs (fp_sub (decode a) (decode b)) \<noteq> NaN"
    using assms by (simp add: fabs_NaN_iff)
  have e: "abs_epsilon \<noteq> NaN" by (simp add: abs_epsilon_def decode_def)
  have s: "fp_mul (fp_add (fabs (decode a)) (fabs (decode b))) rel_epsilon \<noteq> NaN"
    by (rule fp_mul_rel_epsilon_not_NaN) (rule fp_add_not_NaN [OF a b])
  show ?thesis
    unfolding exceeds_both_def within_tolerance_def Let_def
    using not_fp_gt_iff [OF d e] not_fp_gt_iff [OF d s]
    by (simp add: fp_mul_commute [of rel_epsilon]) blast
qed

lemma exceeds_both_NaN: "fp_sub (decode a) (decode b) = NaN \<Longrightarrow> \<not> exceeds_both a b"
  by (simp add: exceeds_both_def)

lemma within_tolerance_NaN: "fp_sub (decode a) (decode b) = NaN \<Longrightarrow> \<not> within_tolerance a b"
  by (simp add: within_tolerance_def)

lemma cmp_loop_eq:
  "cmp_loop p1 p2 n i =
     (if \<exists>j. i \<le> j \<and> j < n \<and> exceeds_both (p1 ! j) (p2 ! j) then 1 else 0)"
proof (induction p1 p2 n i rule: cmp_loop.induct)
  case (1 p1 p2 n i)
  show ?case
  proof (cases "i < n")
    case False
    then show ?thesis by (subst cmp_loop.simps) auto
  next
    case True
    show ?thesis
    proof (cases "exceeds_both (p1 ! i) (p2 ! i)")
      case ex: True
      then have "cmp_loop p1 p2 n i = 1"
        using True by (subst cmp_loop.simps) (simp add: exceeds_both_def Let_def)
      moreover have "\<exists>j. i \<le> j \<and> j < n \<and> exceeds_both (p1 ! j) (p2 ! j)"
        using True ex by blast
      ultimately show ?thesis by simp
    next
      case nex: False
      have step: "cmp_loop p1 p2 n i = cmp_loop p1 p2 n (i + 1)"
        using True nex by (subst cmp_loop.simps) (auto simp: exceeds_both_def Let_def)
      have IH: "cmp_loop p1 p2 n (i + 1) =
          (if \<exists>j. i + 1 \<le> j \<and> j < n \<and> exceeds_both (p1 ! j) (p2 ! j) then 1 else 0)"
      proof (cases "fp_gt (fabs (fp_sub (decode (p1 ! i)) (decode (p2 ! i)))) abs_epsilon")
        case True
        with nex have "\<not> fp_gt (fabs (fp_sub (decode (p1 ! i)) (decode (p2 ! i))))
            (fp_mul (fp_add (fabs (decode (p1 ! i))) (fabs (decode (p2 ! i)))) rel_epsilon)"
          by (simp add: exceeds_both_def Let_def)
        from "1.IH"(1) [OF \<open>i < n\<close> refl True refl this] show ?thesis .
      next
        case False
        from "1.IH"(2) [OF \<open>i < n\<close> refl False] show ?thesis .
      qed
      have "(\<exists>j. i \<le> j \<and> j < n \<and> exceeds_both (p1 ! j) (p2 ! j)) \<longleftrightarrow>
            (\<exists>j. i + 1 \<le> j \<and> j < n \<and> exceeds_both (p1 ! j) (p2 ! j))"
        using nex by (metis Suc_eq_plus1 Suc_leI le_neq_implies_less Suc_leD)
      with step IH show ?thesis by simp
    qed
  qed
qed


section \<open>The tolerant comparator: results\<close>

lemma opm_memcmp_double_eq:
  assumes len: "unat n \<le> length p1" "unat n \<le> length p2" and small: "unat n < 2 ^ 61"
  shows "opm_memcmp_double p1 p2 n =
     Some (if take (unat n) p1 = take (unat n) p2 \<or>
              (\<forall>i<unat n. \<not> exceeds_both (p1 ! i) (p2 ! i)) then 0 else 1)"
proof -
  have "unat (n * 8) = unat n * 8"
    using small by (simp add: unat_word_ariths)
  then have m: "memcmp_doubles p1 p2 (n * 8) \<longleftrightarrow> take (unat n) p1 = take (unat n) p2"
    by (simp add: memcmp_doubles_def)
  have "take (unat n) p1 = take (unat n) p2 \<Longrightarrow> i < unat n \<Longrightarrow> p1 ! i = p2 ! i" for i
    by (metis nth_take)
  then show ?thesis using len m
    by (auto simp: opm_memcmp_double_def cmp_loop_eq)
qed

lemma example_identical:
  "opm_memcmp_double [0x3FF0000000000000, 0x4000000000000000]
     [0x3FF0000000000000, 0x4000000000000000] 2 = Some 0"
  by (simp add: opm_memcmp_double_def memcmp_doubles_def)

lemma example_close:
  "opm_memcmp_double [0x3FF0000000000000] [0x3FF00000055E63B9] 1 = Some 0"
  by (simp add: opm_memcmp_double_def memcmp_doubles_def cmp_loop.simps fp_eval)

lemma example_relative:
  "opm_memcmp_double [0x408F400000000000] [0x408F4028F5C28F5C] 1 = Some 0"
  by (simp add: opm_memcmp_double_def memcmp_doubles_def cmp_loop.simps fp_eval)

lemma example_different:
  "opm_memcmp_double [0x3FF0000000000000] [0x3FF199999999999A] 1 = Some 1"
  by (simp add: opm_memcmp_double_def memcmp_doubles_def cmp_loop.simps fp_eval)

text \<open>
  C1, as amended. Let \<open>num_elements\<close> lie within both arrays and below \<open>2 ^ 61\<close> (so that
  the byte count does not wrap), and let no element pair have a NaN difference. Then the
  comparator returns 0 (equal) exactly when the first \<open>num_elements\<close> elements are
  byte-identical or every element pair is within tolerance, \<open>|a - b| \<le> 1e-8\<close> or
  \<open>|a - b| \<le> 1e-5 * (|a| + |b|)\<close>, and 1 (different) otherwise. The four examples:
  \<open>[1.0, 2.0]\<close> against itself is equal, \<open>[1.0]\<close> against \<open>[1.00000002]\<close> is equal,
  \<open>[1000.0]\<close> against \<open>[1000.02]\<close> is equal, \<open>[1.0]\<close> against \<open>[1.1]\<close> is different.
\<close>

theorem opm_memcmp_double_tolerance:
  assumes "unat n \<le> length p1" and "unat n \<le> length p2" and "unat n < 2 ^ 61"
    and "\<forall>i<unat n. fp_sub (decode (p1 ! i)) (decode (p2 ! i)) \<noteq> NaN"
  shows "opm_memcmp_double p1 p2 n =
           Some (if take (unat n) p1 = take (unat n) p2 \<or>
                    (\<forall>i<unat n. within_tolerance (p1 ! i) (p2 ! i)) then 0 else 1)
         \<and> opm_memcmp_double [0x3FF0000000000000, 0x4000000000000000]
             [0x3FF0000000000000, 0x4000000000000000] 2 = Some 0
         \<and> opm_memcmp_double [0x3FF0000000000000] [0x3FF00000055E63B9] 1 = Some 0
         \<and> opm_memcmp_double [0x408F400000000000] [0x408F4028F5C28F5C] 1 = Some 0
         \<and> opm_memcmp_double [0x3FF0000000000000] [0x3FF199999999999A] 1 = Some 1"
proof -
  have "(\<forall>i<unat n. \<not> exceeds_both (p1 ! i) (p2 ! i)) \<longleftrightarrow>
        (\<forall>i<unat n. within_tolerance (p1 ! i) (p2 ! i))"
    using assms(4) exceeds_both_iff by blast
  then show ?thesis
    using opm_memcmp_double_eq [OF assms(1-3)] example_identical example_close example_relative example_different by simp
qed

theorem opm_memcmp_double_tolerance_witness:
  "opm_memcmp_double [0x3FF0000000000000, 0x408F400000000000]
      [0x3FF00000055E63B9, 0x408F4028F5C28F5C] 2 = Some 0
   \<and> opm_memcmp_double [0x3FF0000000000000] [0x3FF199999999999A] 1 = Some 1"
proof -
  have sub1: "fp_sub (decode 0x3FF0000000000000) (decode 0x3FF00000055E63B9) \<noteq> NaN"
    by (simp add: fp_eval)
  have sub2: "fp_sub (decode 0x408F400000000000) (decode 0x408F4028F5C28F5C) \<noteq> NaN"
    by (simp add: fp_eval)
  have tol1: "within_tolerance 0x3FF0000000000000 0x3FF00000055E63B9"
    by (simp add: within_tolerance_def fp_eval)
  have tol2: "within_tolerance 0x408F400000000000 0x408F4028F5C28F5C"
    by (simp add: within_tolerance_def fp_eval)
  have all: "(\<forall>i<2. P i) \<longleftrightarrow> P 0 \<and> P (Suc 0)" for P :: "nat \<Rightarrow> bool"
    by (auto simp: less_Suc_eq numeral_2_eq_2)
  show ?thesis
    using opm_memcmp_double_tolerance [of 2 "[0x3FF0000000000000, 0x408F400000000000]"
        "[0x3FF00000055E63B9, 0x408F4028F5C28F5C]"] sub1 sub2 tol1 tol2
    by (simp add: all)
qed

text \<open>
  C1 as stated fails on NaN: \<open>[NaN]\<close> against \<open>[1.0]\<close> is reported equal, although the
  arrays are not byte-identical and the pair satisfies neither tolerance inequality.
\<close>

theorem opm_memcmp_double_nan_counterexample:
  "opm_memcmp_double [0x7FF8000000000000] [0x3FF0000000000000] 1 = Some 0
   \<and> [0x7FF8000000000000] \<noteq> [0x3FF0000000000000 :: double]
   \<and> \<not> within_tolerance 0x7FF8000000000000 0x3FF0000000000000"
  by (simp add: opm_memcmp_double_def memcmp_doubles_def cmp_loop.simps within_tolerance_def
      decode_def fp_sub_def)

text \<open>
  C10. A NaN makes both threshold comparisons false, whatever the sum is. So when the
  comparator answers 1 (different), some element pair with a difference that is not NaN
  exceeds both thresholds: a pair with a NaN difference never causes that answer. And
  an array holding one NaN compares equal to any one-element array \<open>[x]\<close>, although
  the pair is not within tolerance and, for \<open>x\<close> another bit pattern, the arrays are not
  byte-identical.
\<close>

theorem nan_pair_never_different:
  "\<not> fp_gt (fabs NaN) abs_epsilon \<and> \<not> fp_gt (fabs NaN) (fp_mul s rel_epsilon)
   \<and> (opm_memcmp_double p1 p2 n = Some 1 \<longrightarrow>
        (\<exists>i<unat n. fp_sub (decode (p1 ! i)) (decode (p2 ! i)) \<noteq> NaN
           \<and> exceeds_both (p1 ! i) (p2 ! i)))
   \<and> (decode w = NaN \<longrightarrow>
        opm_memcmp_double [w] [x] 1 = Some 0 \<and> \<not> within_tolerance w x
        \<and> (x \<noteq> w \<longrightarrow> \<not> memcmp_doubles [w] [x] (1 * 8)))"
proof -
  have a: "opm_memcmp_double p1 p2 n = Some 1 \<longrightarrow>
        (\<exists>i<unat n. fp_sub (decode (p1 ! i)) (decode (p2 ! i)) \<noteq> NaN
           \<and> exceeds_both (p1 ! i) (p2 ! i))"
  proof
    assume "opm_memcmp_double p1 p2 n = Some 1"
    then have "cmp_loop p1 p2 (unat n) 0 = 1"
      by (auto simp: opm_memcmp_double_def split: if_splits)
    then obtain j where "j < unat n" "exceeds_both (p1 ! j) (p2 ! j)"
      by (auto simp: cmp_loop_eq split: if_splits)
    then show "\<exists>i<unat n. fp_sub (decode (p1 ! i)) (decode (p2 ! i)) \<noteq> NaN
           \<and> exceeds_both (p1 ! i) (p2 ! i)"
      using exceeds_both_NaN by blast
  qed
  have b: "opm_memcmp_double [w] [x] 1 = Some 0 \<and> \<not> within_tolerance w x
        \<and> (x \<noteq> w \<longrightarrow> \<not> memcmp_doubles [w] [x] (1 * 8))" if w: "decode w = NaN"
  proof -
    have "\<not> exceeds_both w x" by (rule exceeds_both_NaN) (simp add: w fp_sub_def)
    then have "cmp_loop [w] [x] 1 0 = 0" by (simp add: cmp_loop_eq)
    then have "opm_memcmp_double [w] [x] 1 = Some 0"
      by (simp add: opm_memcmp_double_def)
    moreover have "\<not> within_tolerance w x"
      by (rule within_tolerance_NaN) (simp add: w fp_sub_def)
    moreover have "x \<noteq> w \<longrightarrow> \<not> memcmp_doubles [w] [x] (1 * 8)"
      by (auto simp: memcmp_doubles_def)
    ultimately show ?thesis by blast
  qed
  show ?thesis using a b by simp
qed

theorem nan_pair_never_different_witness:
  "opm_memcmp_double [0x7FF8000000000000] [0x3FF199999999999A] 1 = Some 0
   \<and> \<not> within_tolerance 0x7FF8000000000000 0x3FF199999999999A
   \<and> \<not> memcmp_doubles [0x7FF8000000000000] [0x3FF199999999999A] 8
   \<and> (\<exists>i<unat (1 :: 64 word).
         fp_sub (decode ([0x3FF0000000000000] ! i)) (decode ([0x3FF199999999999A] ! i)) \<noteq> NaN
         \<and> exceeds_both ([0x3FF0000000000000] ! i) ([0x3FF199999999999A] ! i))"
proof -
  have w: "decode 0x7FF8000000000000 = NaN"
    by (simp add: decode_def)
  have ne: "(0x3FF199999999999A :: double) \<noteq> 0x7FF8000000000000"
    by simp
  show ?thesis
    using nan_pair_never_different [of "Fin 0" "[0x3FF0000000000000]" "[0x3FF199999999999A]" 1
        "0x7FF8000000000000" "0x3FF199999999999A"] w ne example_different
    by simp
qed

section \<open>The region selector and the table attachment\<close>

text \<open>
  C2. With no cell-to-region array the selector returns region 0 for every cell index;
  with an array it returns the array's element at the cell index, for every index
  inside the array.
\<close>

theorem getTableIndex_region:
  "getTableIndex None cellIdx = Some 0
   \<and> (0 \<le> sint cellIdx \<and> nat (sint cellIdx) < length arr \<longrightarrow>
        getTableIndex (Some arr) cellIdx = Some (arr ! nat (sint cellIdx)))"
  by (simp add: getTableIndex_def rd_int_def rd_def)

theorem getTableIndex_region_witness:
  "getTableIndex None 1 = Some 0 \<and> getTableIndex (Some [3, 7]) 1 = Some 7"
  using getTableIndex_region [of 1 "[3, 7]"] by simp

text \<open>
  C9. Attaching viscosity-temperature tables sets the table pointer and the
  reference-pressure keyword and leaves the saturated table and the undersaturated
  table families as they were; a second attachment overwrites the first.
\<close>

theorem setOilvisctTables_frame:
  "saturated_oil_table (setOilvisctTables this tables keyword) = saturated_oil_table this
   \<and> undersat_oil_tables (setOilvisctTables this tables keyword) = undersat_oil_tables this
   \<and> oilvisctTables (setOilvisctTables this tables keyword) = Some tables
   \<and> viscrefKeyword (setOilvisctTables this tables keyword) = keyword
   \<and> setOilvisctTables (setOilvisctTables this tables keyword) tables' keyword'
       = setOilvisctTables this tables' keyword'"
  by (simp add: setOilvisctTables_def)

section \<open>Table interpolation\<close>

lemma cells_single: "cells 1 f = map_option (\<lambda>x. [x]) (f 0)"
  by (cases "f 0") (simp_all add: cells_def)

lemma tableIndex_bound: "2 \<le> length xs \<Longrightarrow> tableIndex xs x + 2 \<le> length xs"
  by (induction xs x rule: tableIndex.induct) auto

lemma tableIndex_first: "2 \<le> length xs \<Longrightarrow> x \<le> xs ! 1 \<Longrightarrow> tableIndex xs x = 0"
  by (induction xs x rule: tableIndex.induct) auto

lemma tableIndex_last:
  "sorted_wrt (<) xs \<Longrightarrow> 2 \<le> length xs \<Longrightarrow> last xs \<le> x \<Longrightarrow> tableIndex xs x = length xs - 2"
proof (induction xs x rule: tableIndex.induct)
  case (1 x0 x1 x2 xs x)
  have "x1 < last (x1 # x2 # xs)" using "1.prems"(1) by (auto simp: ) 
  then have "\<not> x \<le> x1" using "1.prems"(3) by simp
  moreover have "tableIndex (x1 # x2 # xs) x = length (x1 # x2 # xs) - 2"
    using "1.prems" \<open>\<not> x \<le> x1\<close> by (intro "1.IH") auto
  ultimately show ?case by simp
qed auto

lemma tableIndex_gt: "0 < tableIndex xs x \<Longrightarrow> xs ! tableIndex xs x < x"
proof (induction xs x rule: tableIndex.induct)
  case (1 x0 x1 x2 xs x)
  from "1.prems" have nle: "\<not> x \<le> x1" by (auto split: if_splits)
  show ?case
  proof (cases "tableIndex (x1 # x2 # xs) x")
    case 0
    with nle show ?thesis by simp
  next
    case (Suc k)
    with nle "1.IH" show ?thesis by simp
  qed
qed auto

lemma tableIndex_le: "tableIndex xs x + 2 < length xs \<Longrightarrow> x \<le> xs ! (tableIndex xs x + 1)"
  by (induction xs x rule: tableIndex.induct) (auto split: if_splits)

lemma tableIndex_mono: "x \<le> y \<Longrightarrow> tableIndex xs x \<le> tableIndex xs y"
  by (induction xs x arbitrary: y rule: tableIndex.induct) (auto split: if_splits)



lemma segment_eq:
  assumes "2 \<le> length xs" and "length ys = length xs"
    and "xs ! (tableIndex xs x + 1) \<noteq> xs ! tableIndex xs x"
  shows "segment xs ys x =
     Some (xs ! tableIndex xs x, ys ! tableIndex xs x,
       (ys ! (tableIndex xs x + 1) - ys ! tableIndex xs x) /
       (xs ! (tableIndex xs x + 1) - xs ! tableIndex xs x))"
  using assms tableIndex_bound [OF assms(1), of x]
  by (simp add: segment_def rd_def safe_div_def Let_def)

lemma strict_segment:
  assumes "sorted_wrt (<) xs" and "2 \<le> length xs"
  shows "xs ! tableIndex xs x < xs ! (tableIndex xs x + 1)"
  using tableIndex_bound [OF assms(2), of x]
  by (intro sorted_wrt_nth_less [OF assms(1)]) auto

lemma interp_eq:
  assumes "sorted_wrt (<) xs" and "2 \<le> length xs" and "length ys = length xs"
  shows "linearInterpolation xs ys x =
     Some (ys ! tableIndex xs x + (x - xs ! tableIndex xs x) *
       ((ys ! (tableIndex xs x + 1) - ys ! tableIndex xs x) /
        (xs ! (tableIndex xs x + 1) - xs ! tableIndex xs x)))"
    and "linearInterpolationDerivative xs ys x =
     Some ((ys ! (tableIndex xs x + 1) - ys ! tableIndex xs x) /
        (xs ! (tableIndex xs x + 1) - xs ! tableIndex xs x))"
  using segment_eq [OF assms(2,3), of x] strict_segment [OF assms(1,2), of x]
  by (simp_all add: linearInterpolation_def linearInterpolationDerivative_def)

lemma interp_below:
  assumes "sorted_wrt (<) xs" and "2 \<le> length xs" and "length ys = length xs"
    and "x \<le> xs ! 0"
  shows "linearInterpolation xs ys x =
     Some (ys ! 0 + (x - xs ! 0) * ((ys ! 1 - ys ! 0) / (xs ! 1 - xs ! 0)))"
    and "linearInterpolationDerivative xs ys x = Some ((ys ! 1 - ys ! 0) / (xs ! 1 - xs ! 0))"
proof -
  have "xs ! 0 < xs ! 1" using assms(2) by (intro sorted_wrt_nth_less [OF assms(1)]) auto
  with assms(4) have "x \<le> xs ! 1" by simp
  then have i: "tableIndex xs x = 0" using assms(2) by (rule tableIndex_first [rotated])
  show "linearInterpolation xs ys x =
     Some (ys ! 0 + (x - xs ! 0) * ((ys ! 1 - ys ! 0) / (xs ! 1 - xs ! 0)))"
    using interp_eq(1) [OF assms(1-3), of x] by (simp add: i)
  show "linearInterpolationDerivative xs ys x = Some ((ys ! 1 - ys ! 0) / (xs ! 1 - xs ! 0))"
    using interp_eq(2) [OF assms(1-3), of x] by (simp add: i)
qed

lemma interp_above:
  assumes "sorted_wrt (<) xs" and "2 \<le> length xs" and "length ys = length xs"
    and "xs ! (length xs - 1) \<le> x"
  shows "linearInterpolation xs ys x =
     Some (ys ! (length xs - 1) + (x - xs ! (length xs - 1)) *
       ((ys ! (length xs - 1) - ys ! (length xs - 2)) /
        (xs ! (length xs - 1) - xs ! (length xs - 2))))"
    and "linearInterpolationDerivative xs ys x =
     Some ((ys ! (length xs - 1) - ys ! (length xs - 2)) /
        (xs ! (length xs - 1) - xs ! (length xs - 2)))"
proof -
  have ne: "xs \<noteq> []" using assms(2) by auto
  have "last xs \<le> x" using assms(4) by (simp add: last_conv_nth ne)
  then have i: "tableIndex xs x = length xs - 2"
    using assms(1,2) by (intro tableIndex_last)
  have s: "Suc (length xs - 2) = length xs - 1" using assms(2) by simp
  have lt: "xs ! (length xs - 2) < xs ! (length xs - 1)"
    using assms(2) by (intro sorted_wrt_nth_less [OF assms(1)]) auto
  show "linearInterpolationDerivative xs ys x =
     Some ((ys ! (length xs - 1) - ys ! (length xs - 2)) /
        (xs ! (length xs - 1) - xs ! (length xs - 2)))"
    using interp_eq(2) [OF assms(1-3), of x] by (simp add: i s)
  have "ys ! (length xs - 2) + (x - xs ! (length xs - 2)) *
       ((ys ! (length xs - 1) - ys ! (length xs - 2)) /
        (xs ! (length xs - 1) - xs ! (length xs - 2)))
      = ys ! (length xs - 1) + (x - xs ! (length xs - 1)) *
       ((ys ! (length xs - 1) - ys ! (length xs - 2)) /
        (xs ! (length xs - 1) - xs ! (length xs - 2)))"
    using lt by (simp add: field_simps)
  then show "linearInterpolation xs ys x =
     Some (ys ! (length xs - 1) + (x - xs ! (length xs - 1)) *
       ((ys ! (length xs - 1) - ys ! (length xs - 2)) /
        (xs ! (length xs - 1) - xs ! (length xs - 2))))"
    using interp_eq(1) [OF assms(1-3), of x] by (simp add: i s)
qed

section \<open>The saturated ratio outside the table\<close>

lemma getTableIndex_single: "getTableIndex (Some [region]) 0 = Some region"
  by (simp add: getTableIndex_def rd_int_def rd_def)

lemma rsSat_single:
  "rsSat this 1 (Some [region]) [p] =
     map_option (\<lambda>(v, d). ([v], [d])) (sat_ratio this region p)"
  by (cases "sat_ratio this region p")
    (auto simp: rsSat_def cells_single getTableIndex_single rd_def)

lemma rvSat_single:
  "rvSat this 1 (Some [region]) [p] =
     map_option (\<lambda>(v, d). ([v], [d])) (sat_ratio this region p)"
  by (cases "sat_ratio this region p")
    (auto simp: rvSat_def cells_single getTableIndex_single rd_def)

text \<open>
  C5. Let the saturated table of the region have at least two rows with strictly
  increasing pressures. At a pressure at or below the first tabulated pressure, \<open>rsSat\<close>
  and \<open>rvSat\<close> return the value on the line through the first two rows and, as the
  derivative, the slope of that line; at a pressure at or above the last tabulated
  pressure, the value on the line through the last two rows and its slope.
\<close>

theorem rsSat_rvSat_linear_continuation:
  assumes "rd_int (saturated_oil_table this) region = Some tab"
    and "rd tab 0 = Some xs" and "rd tab 3 = Some rs"
    and "sorted_wrt (<) xs" and "2 \<le> length xs" and "length rs = length xs"
  shows "(p \<le> xs ! 0 \<longrightarrow>
            rsSat this 1 (Some [region]) [p] =
              Some ([rs ! 0 + (p - xs ! 0) * ((rs ! 1 - rs ! 0) / (xs ! 1 - xs ! 0))],
                    [(rs ! 1 - rs ! 0) / (xs ! 1 - xs ! 0)])
          \<and> rvSat this 1 (Some [region]) [p] =
              Some ([rs ! 0 + (p - xs ! 0) * ((rs ! 1 - rs ! 0) / (xs ! 1 - xs ! 0))],
                    [(rs ! 1 - rs ! 0) / (xs ! 1 - xs ! 0)]))
       \<and> (xs ! (length xs - 1) \<le> p \<longrightarrow>
            rsSat this 1 (Some [region]) [p] =
              Some ([rs ! (length xs - 1) + (p - xs ! (length xs - 1)) *
                      ((rs ! (length xs - 1) - rs ! (length xs - 2)) /
                       (xs ! (length xs - 1) - xs ! (length xs - 2)))],
                    [(rs ! (length xs - 1) - rs ! (length xs - 2)) /
                       (xs ! (length xs - 1) - xs ! (length xs - 2))])
          \<and> rvSat this 1 (Some [region]) [p] =
              Some ([rs ! (length xs - 1) + (p - xs ! (length xs - 1)) *
                      ((rs ! (length xs - 1) - rs ! (length xs - 2)) /
                       (xs ! (length xs - 1) - xs ! (length xs - 2)))],
                    [(rs ! (length xs - 1) - rs ! (length xs - 2)) /
                       (xs ! (length xs - 1) - xs ! (length xs - 2))]))"
proof -
  have sr: "sat_ratio this region p =
      do { v \<leftarrow> linearInterpolation xs rs p;
           d \<leftarrow> linearInterpolationDerivative xs rs p;
           Some (v, d) }"
    by (simp add: sat_ratio_def assms(1-3))
  show ?thesis
    using interp_below [OF assms(4,5,6), of p] interp_above [OF assms(4,5,6), of p]
    by (auto simp: rsSat_single rvSat_single sr)
qed

lemma scenario_fields:
  "saturated_oil_table scenario = [[[100, 200], [9/10, 95/100], [12/10, 1], [50, 80]]]"
  "undersat_oil_tables scenario =
        [[[[100, 300], [9/10, 1], [12/10, 13/10]],
          [[200, 300], [95/100, 96/100], [1, 11/10]]]]"
  "oilvisctTables scenario = None"
  by (simp_all add: scenario_def)

theorem rsSat_rvSat_linear_continuation_witness:
  "rsSat scenario 1 (Some [0]) [50] = Some ([35], [3/10])
   \<and> rvSat scenario 1 (Some [0]) [50] = Some ([35], [3/10])
   \<and> rsSat scenario 1 (Some [0]) [250] = Some ([95], [3/10])
   \<and> rvSat scenario 1 (Some [0]) [250] = Some ([95], [3/10])"
  using rsSat_rvSat_linear_continuation [of scenario 0
      "[[100, 200], [9/10, 95/100], [12/10, 1], [50, 80]]" "[100, 200]" "[50, 80]" 50]
    rsSat_rvSat_linear_continuation [of scenario 0
      "[[100, 200], [9/10, 95/100], [12/10, 1], [50, 80]]" "[100, 200]" "[50, 80]" 250]
  by (simp add: scenario_fields rd_int_def rd_def)

section \<open>The saturated and the undersaturated branch\<close>

lemma interp_mono:
  assumes xs: "sorted_wrt (<) xs" and len: "2 \<le> length xs" "length ys = length xs"
    and ys: "sorted ys" and xy: "x \<le> y"
  shows "\<exists>u v. linearInterpolation xs ys x = Some u \<and> linearInterpolation xs ys y = Some v
           \<and> u \<le> v"
proof -
  define i where "i = tableIndex xs x"
  define j where "j = tableIndex xs y"
  define s where "s k = (ys ! (k + 1) - ys ! k) / (xs ! (k + 1) - xs ! k)" for k
  have ij: "i \<le> j" unfolding i_def j_def using xy by (rule tableIndex_mono)
  have bi: "i + 2 \<le> length xs" and bj: "j + 2 \<le> length xs"
    unfolding i_def j_def using len(1) by (rule tableIndex_bound)+
  have dx: "xs ! k < xs ! (k + 1)" if "k + 2 \<le> length xs" for k
    using that by (intro sorted_wrt_nth_less [OF xs]) auto
  have dy: "ys ! k \<le> ys ! (k + 1)" if "k + 2 \<le> length xs" for k
    using that len(2) by (intro sorted_nth_mono [OF ys]) auto
  have sk: "0 \<le> s k" if "k + 2 \<le> length xs" for k
    unfolding s_def using dx [OF that] dy [OF that] by simp
  have u: "linearInterpolation xs ys x = Some (ys ! i + (x - xs ! i) * s i)"
    unfolding i_def s_def by (rule interp_eq(1) [OF xs len])
  have v: "linearInterpolation xs ys y = Some (ys ! j + (y - xs ! j) * s j)"
    unfolding j_def s_def by (rule interp_eq(1) [OF xs len])
  have "ys ! i + (x - xs ! i) * s i \<le> ys ! j + (y - xs ! j) * s j"
  proof (cases "i = j")
    case True
    have "(x - xs ! i) * s i \<le> (y - xs ! i) * s i"
      using xy sk [OF bi] by (intro mult_right_mono) auto
    then show ?thesis using True by simp
  next
    case False
    with ij have lt: "i < j" by simp
    then have "tableIndex xs x + 2 < length xs" using bj by (simp add: i_def)
    then have "x \<le> xs ! (i + 1)" unfolding i_def by (rule tableIndex_le)
    then have "(x - xs ! i) * s i \<le> (xs ! (i + 1) - xs ! i) * s i"
      using sk [OF bi] by (intro mult_right_mono) auto
    also have "(xs ! (i + 1) - xs ! i) * s i = ys ! (i + 1) - ys ! i"
      unfolding s_def using dx [OF bi] by simp
    finally have a: "ys ! i + (x - xs ! i) * s i \<le> ys ! (i + 1)" by simp
    have "0 < tableIndex xs y" using lt by (simp add: j_def)
    then have "xs ! j < y" unfolding j_def by (rule tableIndex_gt)
    then have "0 \<le> (y - xs ! j) * s j"
      using sk [OF bj] by (intro mult_nonneg_nonneg) auto
    then have b: "ys ! j \<le> ys ! j + (y - xs ! j) * s j" by simp
    have "ys ! (i + 1) \<le> ys ! j"
      using lt bj len(2) by (intro sorted_nth_mono [OF ys]) auto
    with a b show ?thesis by linarith
  qed
  with u v show ?thesis by blast
qed

lemma b_r_single:
  "b_r this 1 (Some [region]) [p] [T] [r] =
     map_option (\<lambda>(v, dp, dr). ([v], [dp], [dr]))
       (eval3 (\<lambda>deriv. miscible_oil_r this p r region 1 deriv))"
  by (cases "eval3 (\<lambda>deriv. miscible_oil_r this p r region 1 deriv)")
    (auto simp: b_r_def cells_single getTableIndex_single rd_def unzip3_def)




lemma b_value_eq:
  "b_value this region p T r =
     map_option fst (eval3 (\<lambda>deriv. miscible_oil_r this p r region 1 deriv))"
  by (cases "eval3 (\<lambda>deriv. miscible_oil_r this p r region 1 deriv)")
    (auto simp: b_value_def b_r_single)

lemma rsSat_single_iff:
  "rsSat this 1 (Some [region]) [p] = Some ([R], [dR]) \<longleftrightarrow> sat_ratio this region p = Some (R, dR)"
  by (cases "sat_ratio this region p") (auto simp: rsSat_single)


lemma eval3_saturated:
  "map_option fst (eval3 (\<lambda>deriv. saturated_eval tab item deriv p)) = saturated_eval tab item 0 p"
  by (cases "rd tab 0"; cases "rd tab item"; cases "segment (the (rd tab 0)) (the (rd tab item)) p")
    (auto simp: eval3_def saturated_eval_def linearInterpolation_def
      linearInterpolationDerivative_def)


lemmas scenario_eval = scenario_fields rd_int_def rd_def sat_ratio_def linearInterpolation_def
  linearInterpolationDerivative_def segment_def safe_div_def saturated_eval_def
  undersat_eval_def undersat_bracket_def eval3_def rsSat_single




lemma miscible_oil_r_saturated:
  assumes "sat_ratio this region p = Some (R, dR)" and "R \<le> r"
    and "rd_int (saturated_oil_table this) region = Some tab"
    and "item = 1 \<or> item = 2"
  shows "miscible_oil_r this p r region item deriv = saturated_eval tab item deriv p"
  using assms by (auto simp: miscible_oil_r_def miscible_oil_branch_def)

lemma b_value_saturated:
  assumes "sat_ratio this region p = Some (R, dR)" and "R \<le> r"
    and "rd_int (saturated_oil_table this) region = Some tab"
  shows "b_value this region p T r = saturated_eval tab 1 0 p"
  by (simp add: b_value_eq miscible_oil_r_saturated [OF assms] eval3_saturated)

text \<open>
  C7. Let the saturated table of the region have at least two rows with strictly
  increasing pressures and a \<open>1/B\<close> column that does not decrease. For a ratio \<open>r\<close> that is
  saturated at both pressures \<open>p1 \<le> p2\<close>, \<open>b(p1, T, r) \<le> b(p2, T, r)\<close>.
\<close>

theorem b_monotone_in_pressure:
  assumes "rd_int (saturated_oil_table this) region = Some tab"
    and "rd tab 0 = Some xs" and "rd tab 1 = Some bs"
    and "sorted_wrt (<) xs" and "2 \<le> length xs" and "length bs = length xs"
    and "sorted bs"
    and "p1 \<le> p2"
    and "rsSat this 1 (Some [region]) [p1] = Some ([R1], [dR1])" and "R1 \<le> r"
    and "rsSat this 1 (Some [region]) [p2] = Some ([R2], [dR2])" and "R2 \<le> r"
  shows "\<exists>v1 v2. b_value this region p1 T r = Some v1 \<and> b_value this region p2 T r = Some v2
           \<and> v1 \<le> v2"
proof -
  from assms(9) have s1: "sat_ratio this region p1 = Some (R1, dR1)"
    by (simp add: rsSat_single_iff)
  from assms(11) have s2: "sat_ratio this region p2 = Some (R2, dR2)"
    by (simp add: rsSat_single_iff)
  have e: "saturated_eval tab 1 0 q = linearInterpolation xs bs q" for q
    using assms(2,3) by (simp add: saturated_eval_def)
  have "b_value this region p1 T r = linearInterpolation xs bs p1"
    using b_value_saturated [OF s1 assms(10) assms(1), of T] e [of p1] by simp
  moreover have "b_value this region p2 T r = linearInterpolation xs bs p2"
    using b_value_saturated [OF s2 assms(12) assms(1), of T] e [of p2] by simp
  ultimately show ?thesis
    using interp_mono [OF assms(4,5,6,7,8)] by simp
qed

theorem b_monotone_in_pressure_witness:
  "b_value scenario 0 120 300 100 = Some (91/100)
   \<and> b_value scenario 0 180 300 100 = Some (94/100)
   \<and> (\<exists>v1 v2. b_value scenario 0 120 300 100 = Some v1
         \<and> b_value scenario 0 180 300 100 = Some v2 \<and> v1 \<le> v2)"
proof -
  have t: "rd_int (saturated_oil_table scenario) 0
      = Some [[100, 200], [9/10, 95/100], [12/10, 1], [50, 80]]"
    by (simp add: scenario_eval)
  have x: "rd [[100, 200], [9/10, 95/100], [12/10, 1], [50, 80 :: real]] 0 = Some [100, 200]"
    by (simp add: rd_def)
  have b: "rd [[100, 200], [9/10, 95/100], [12/10, 1], [50, 80 :: real]] 1
      = Some [9/10, 95/100]"
    by (simp add: rd_def)
  have R1: "rsSat scenario 1 (Some [0]) [120] = Some ([56], [3/10])"
    by (simp add: scenario_eval)
  have R2: "rsSat scenario 1 (Some [0]) [180] = Some ([74], [3/10])"
    by (simp add: scenario_eval)
  have v1: "b_value scenario 0 120 300 100 = Some (91/100)"
    by (simp add: b_value_eq miscible_oil_r_def miscible_oil_branch_def scenario_eval)
  have v2: "b_value scenario 0 180 300 100 = Some (94/100)"
    by (simp add: b_value_eq miscible_oil_r_def miscible_oil_branch_def scenario_eval)
  show ?thesis
    using b_monotone_in_pressure [OF t x b _ _ _ _ _ R1 _ R2, of 100 300] v1 v2
    by simp
qed

section \<open>The ratio derived from a surface-volume block\<close>

text \<open>
  C4. Let the block hold an oil and a gas volume and let the near-zero bound be
  non-negative. Deriving the ratio never divides by zero. For an oil volume within the
  bound the ratio is 0, no division takes place, and the evaluation by surface volume
  is the evaluation at ratio 0; for any other oil volume the ratio is
  \<open>surfvol[gas] / surfvol[oil]\<close> with a non-zero divisor.
\<close>

theorem surfvol_ratio_guard:
  assumes "rd surfvol (oil_pos lay) = Some oil" and "rd surfvol (gas_pos lay) = Some gas"
    and "0 \<le> oil_near_zero lay"
  shows "surfvol_ratio lay surfvol \<noteq> None
       \<and> (\<bar>oil\<bar> \<le> oil_near_zero lay \<longrightarrow>
            surfvol_ratio lay surfvol = Some 0
            \<and> miscible_oil_z lay this press surfvol region item deriv =
                miscible_oil_r this press 0 region item (if deriv then 1 else 0))
       \<and> (oil_near_zero lay < \<bar>oil\<bar> \<longrightarrow>
            oil \<noteq> 0 \<and> surfvol_ratio lay surfvol = Some (gas / oil))"
  using assms by (auto simp: surfvol_ratio_def miscible_oil_z_def safe_div_def)

theorem surfvol_ratio_guard_witness:
  "surfvol_ratio \<lparr>num_phases = 3, oil_pos = 1, gas_pos = 2, oil_near_zero = 0\<rparr> [1, 0, 5] = Some 0
   \<and> miscible_oil_z \<lparr>num_phases = 3, oil_pos = 1, gas_pos = 2, oil_near_zero = 0\<rparr>
        scenario 150 [1, 0, 5] 0 1 False = miscible_oil_r scenario 150 0 0 1 0
   \<and> miscible_oil_r scenario 150 0 0 1 0 = Some (107/120)
   \<and> surfvol_ratio \<lparr>num_phases = 3, oil_pos = 1, gas_pos = 2, oil_near_zero = 0\<rparr> [1, 2, 5]
        = Some (5/2)"
proof -
  have v: "miscible_oil_r scenario 150 0 0 1 0 = Some (107/120)"
    by (simp add: miscible_oil_r_def miscible_oil_branch_def scenario_eval)
  show ?thesis
    using surfvol_ratio_guard [of "[1, 0, 5]"
        "\<lparr>num_phases = 3, oil_pos = 1, gas_pos = 2, oil_near_zero = 0\<rparr>" 0 5
        scenario 150 0 1 False]
      surfvol_ratio_guard [of "[1, 2, 5]"
        "\<lparr>num_phases = 3, oil_pos = 1, gas_pos = 2, oil_near_zero = 0\<rparr>" 2 5
        scenario 150 0 1 False] v
    by (simp add: rd_def)
qed

section \<open>Viscosity without a temperature table\<close>

text \<open>
  C8. With no viscosity-temperature table attached, every viscosity operation returns
  the same outputs for any two temperature arrays, the other inputs being the same.
\<close>

theorem mu_ignores_temperature:
  assumes "oilvisctTables this = None"
  shows "mu_z lay this n pvtTableIdx p T1 z = mu_z lay this n pvtTableIdx p T2 z
       \<and> mu_r this n pvtTableIdx p T1 r = mu_r this n pvtTableIdx p T2 r
       \<and> mu_cond this n pvtTableIdx p T1 r cond = mu_cond this n pvtTableIdx p T2 r cond"
  using assms by (simp add: mu_z_def mu_r_def mu_cond_def visct_correct_def)

theorem mu_ignores_temperature_witness:
  "mu_z \<lparr>num_phases = 3, oil_pos = 1, gas_pos = 2, oil_near_zero = 0\<rparr>
      scenario 1 None [150] [300] [1, 2, 140]
    = mu_z \<lparr>num_phases = 3, oil_pos = 1, gas_pos = 2, oil_near_zero = 0\<rparr>
      scenario 1 None [150] [400] [1, 2, 140]
   \<and> mu_r scenario 1 None [150] [300] [70] = mu_r scenario 1 None [150] [400] [70]
   \<and> mu_r scenario 1 None [150] [400] [70] = Some ([11/10], [-1/500], [0])
   \<and> mu_cond scenario 1 None [150] [300] [70] [\<lparr>free_water = False, free_oil = True, free_gas = True\<rparr>]
    = mu_cond scenario 1 None [150] [400] [70] [\<lparr>free_water = False, free_oil = True, free_gas = True\<rparr>]"
proof -
  have v: "mu_r scenario 1 None [150] [400] [70] = Some ([11/10], [-1/500], [0])"
    by (simp add: mu_r_def cells_single getTableIndex_def visct_correct_def unzip3_def
        miscible_oil_r_def miscible_oil_branch_def scenario_eval)
  show ?thesis
    using mu_ignores_temperature [of scenario
        "\<lparr>num_phases = 3, oil_pos = 1, gas_pos = 2, oil_near_zero = 0\<rparr>" 1 None "[150]"
        "[300]" "[1, 2, 140]" "[400]" "[70]"
        "[\<lparr>free_water = False, free_oil = True, free_gas = True\<rparr>]"] v
    by (simp add: scenario_fields)
qed

end
